theory Spec2Isabelle
  imports Main "HOL-Library.Word"
begin

section \<open>The bareinfra provider: data model\<close>

text \<open>
  The provider of \<^verbatim>\<open>bareinfra.go\<close> keeps a table \<^verbatim>\<open>pods []*v1.Pod\<close>: a slice of
  pointers to pod objects. The pod objects live on the Go heap and are shared with
  the callers, so the model has an explicit store: a heap from addresses to pod
  values, and a table of addresses. A pointer argument is an \<open>addr option\<close>, with
  \<open>None\<close> for \<^verbatim>\<open>nil\<close>. The slice itself is shared too: \<^verbatim>\<open>GetPods\<close> returns it, so the
  array behind it is part of the store as well.

  Of the Kubernetes structs only the fields that the provider reads or writes are
  modelled; every other field keeps its zero value throughout. The string-typed
  enumerations of \<^verbatim>\<open>k8s.io/api/core/v1\<close> (\<^verbatim>\<open>PodPhase\<close>, \<^verbatim>\<open>ConditionStatus\<close>,
  \<^verbatim>\<open>PodConditionType\<close>, \<^verbatim>\<open>NodeConditionType\<close>) are strings, as in Go. A nil slice
  and an empty slice are both the empty list, a nil map and an empty map both the
  empty map.
\<close>

type_synonym addr = nat

text \<open>\<^verbatim>\<open>metav1.Time\<close>, as a number of clock ticks.\<close>

type_synonym Time = int

record Container =
  Container_Name :: string

record ContainerStateRunning =
  StartedAt :: Time

record ContainerState =
  Running :: "ContainerStateRunning option"

record ContainerStatus =
  ContainerStatus_Name :: string
  State :: ContainerState
  Ready :: bool
  RestartCount :: "32 word"

record PodCondition =
  PodCondition_Type :: string
  PodCondition_Status :: string

record PodStatus =
  PodIP :: string
  Phase :: string
  Conditions :: "PodCondition list"
  ContainerStatuses :: "ContainerStatus list"

record Pod =
  Name :: string
  Namespace :: string
  Annotations :: "string \<rightharpoonup> string"
  Containers :: "Container list"
  Status :: PodStatus

record NodeCondition =
  NodeCondition_Type :: string
  NodeCondition_Status :: string
  LastHeartbeatTime :: Time
  LastTransitionTime :: Time
  Reason :: string
  Message :: string

record Provider =
  resourceManager :: "addr option"
  nodeName :: string
  operatingSystem :: string
  pods :: "addr list"

text \<open>
  A slice of pod pointers in the hands of a caller: the array it points into and its
  length. Arrays are numbered in the order of their allocation. Every slice of this
  program starts at the first cell of its array. The capacity of a caller's slice is not
  recorded: the model has no \<^verbatim>\<open>append\<close> by a caller.
\<close>

record slice =
  slice_array :: nat
  slice_len :: nat

text \<open>
  The receiver together with the store it points into. The field \<open>pods\<close> of the
  provider holds the elements of the slice \<^verbatim>\<open>p.pods\<close>, that is, the cells of its array
  below its length. The rest of that slice and of the store is here:
  \<^item> \<open>heap\<close>, the pod objects;
  \<^item> \<open>pods_array\<close>, the number of the array \<^verbatim>\<open>p.pods\<close> points into (the nil slice that
    \<^verbatim>\<open>NewProvider\<close> leaves has the number 0 and the capacity 0);
  \<^item> \<open>pods_cap\<close>, the capacity of \<^verbatim>\<open>p.pods\<close>;
  \<^item> \<open>pods_spare\<close>, the cells of that array from the length of \<^verbatim>\<open>p.pods\<close> on, as far as
    they have been written (the cells behind them hold nil);
  \<^item> \<open>old_arrays\<close>, the cells of the arrays that \<^verbatim>\<open>p.pods\<close> pointed into before, which
    slices returned earlier may still point into;
  \<^item> \<open>growslice\<close>, the capacity the Go runtime chooses, from the old capacity and the
    length needed, when \<^verbatim>\<open>append\<close> has to allocate. The runtime's policy is not fixed by
    the language, so it is a parameter.
\<close>

record world =
  heap :: "addr \<Rightarrow> Pod"
  prov :: Provider
  pods_array :: nat
  pods_cap :: nat
  pods_spare :: "addr list"
  old_arrays :: "nat \<Rightarrow> addr list"
  growslice :: "nat \<Rightarrow> nat \<Rightarrow> nat"

text \<open>
  An error value of Go is the message \<^verbatim>\<open>fmt.Errorf\<close> formats. Dereferencing a nil
  pointer panics; the model reports the panic as a result of its own, with the
  state as it was when the panic happened.
\<close>

datatype error = Errorf string | NilPointerPanic

definition dquote :: char where
  "dquote = CHR 0x22"

text \<open>\<^verbatim>\<open>fmt.Errorf("Pod: \"%s\" in namespace \"%s\" exist", name, namespace)\<close>\<close>

definition AlreadyExists :: "string \<Rightarrow> string \<Rightarrow> error" where
  "AlreadyExists name namespace =
     Errorf (''Pod: '' @ [dquote] @ name @ [dquote] @ '' in namespace '' @
             [dquote] @ namespace @ [dquote] @ '' exist'')"

text \<open>\<^verbatim>\<open>fmt.Errorf("Pod: \"%s\" in namespace \"%s\" not found", name, namespace)\<close>\<close>

definition NotFound :: "string \<Rightarrow> string \<Rightarrow> error" where
  "NotFound name namespace =
     Errorf (''Pod: '' @ [dquote] @ name @ [dquote] @ '' in namespace '' @
             [dquote] @ namespace @ [dquote] @ '' not found'')"

text \<open>Constants of \<^verbatim>\<open>k8s.io/api/core/v1\<close>.\<close>

definition PodRunning :: string where
  "PodRunning = ''Running''"

definition PodReady :: string where
  "PodReady = ''Ready''"

definition ConditionTrue :: string where
  "ConditionTrue = ''True''"

definition ConditionFalse :: string where
  "ConditionFalse = ''False''"

text \<open>The zero value \<^verbatim>\<open>v1.PodStatus{}\<close>.\<close>

definition zero_PodStatus :: PodStatus where
  "zero_PodStatus = \<lparr>PodIP = [], Phase = [], Conditions = [], ContainerStatuses = []\<rparr>"

text \<open>
  A \<^verbatim>\<open>*v1.PodStatus\<close> is either the address of the \<^verbatim>\<open>Status\<close> field of a pod on the
  heap, or the address of a newly allocated status that nothing else refers to.
\<close>

datatype PodStatus_ptr = Status_of addr | New_PodStatus PodStatus

fun read_PodStatus :: "(addr \<Rightarrow> Pod) \<Rightarrow> PodStatus_ptr \<Rightarrow> PodStatus" where
  "read_PodStatus h (Status_of a) = Status (h a)"
| "read_PodStatus h (New_PodStatus s) = s"

section \<open>The operations\<close>

text \<open>\<^verbatim>\<open>NewProvider\<close>: the table starts as the nil slice.\<close>

definition NewProvider :: "addr option \<Rightarrow> string \<Rightarrow> string \<Rightarrow> Provider \<times> error option" where
  "NewProvider rm nodeName' operatingSystem' =
     (\<lparr>resourceManager = rm, nodeName = nodeName', operatingSystem = operatingSystem',
       pods = []\<rparr>, None)"

text \<open>
  \<^verbatim>\<open>GetPod\<close>: the scan over \<^verbatim>\<open>p.pods\<close> returns the first pointer whose pod has the
  name and the namespace; after the loop the named result \<^verbatim>\<open>pod\<close> is still nil.
\<close>

fun GetPod_loop :: "(addr \<Rightarrow> Pod) \<Rightarrow> addr list \<Rightarrow> string \<Rightarrow> string \<Rightarrow> addr option" where
  "GetPod_loop h [] namespace name = None"
| "GetPod_loop h (podI # rest) namespace name =
     (if Name (h podI) = name \<and> Namespace (h podI) = namespace then Some podI
      else GetPod_loop h rest namespace name)"

definition GetPod :: "world \<Rightarrow> string \<Rightarrow> string \<Rightarrow> addr option \<times> error option" where
  "GetPod w namespace name =
     (case GetPod_loop (heap w) (pods (prov w)) namespace name of
        Some podI \<Rightarrow> (Some podI, None)
      | None \<Rightarrow> (None, Some (NotFound name namespace)))"

text \<open>
  \<^verbatim>\<open>CreatePod\<close>. The wall clock is an input: \<open>now k\<close> is what the \<open>k\<close>-th call of
  \<^verbatim>\<open>metav1.Now()\<close> within the operation returns. The loop over the containers
  appends one status per container. Logging is not modelled.
\<close>

fun CreatePod_loop ::
  "(nat \<Rightarrow> Time) \<Rightarrow> nat \<Rightarrow> Container list \<Rightarrow> ContainerStatus list \<Rightarrow> ContainerStatus list" where
  "CreatePod_loop now k [] containerStatusesMap = containerStatusesMap"
| "CreatePod_loop now k (c # rest) containerStatusesMap =
     (let cs = \<lparr>ContainerStatus_Name = Container_Name c,
                State = \<lparr>Running = Some \<lparr>StartedAt = now k\<rparr>\<rparr>,
                Ready = True,
                RestartCount = 0\<rparr>
      in CreatePod_loop now (Suc k) rest (containerStatusesMap @ [cs]))"

text \<open>
  \<^verbatim>\<open>p.pods = append(p.pods, pod)\<close>. When the length is below the capacity, the pointer is
  written into the next cell of the array. Otherwise \<^verbatim>\<open>append\<close> allocates an array with
  room for at least one more element and copies the elements; the old array stays as it
  is, for the slices that still point into it.
\<close>

definition append_pods :: "world \<Rightarrow> addr \<Rightarrow> world" where
  "append_pods w pod =
     (if length (pods (prov w)) < pods_cap w
      then w\<lparr>prov := (prov w)\<lparr>pods := pods (prov w) @ [pod]\<rparr>,
             pods_spare := tl (pods_spare w)\<rparr>
      else w\<lparr>prov := (prov w)\<lparr>pods := pods (prov w) @ [pod]\<rparr>,
             old_arrays := (old_arrays w)(pods_array w := pods (prov w) @ pods_spare w),
             pods_array := Suc (pods_array w),
             pods_cap := max (Suc (length (pods (prov w))))
                             (growslice w (pods_cap w) (Suc (length (pods (prov w))))),
             pods_spare := []\<rparr>)"

definition CreatePod :: "(nat \<Rightarrow> Time) \<Rightarrow> world \<Rightarrow> addr option \<Rightarrow> error option \<times> world" where
  "CreatePod now w pod =
     (case pod of
        None \<Rightarrow> (Some NilPointerPanic, w)
      | Some a \<Rightarrow>
          let h = heap w;
              err = snd (GetPod w (Namespace (h a)) (Name (h a)))
          in if err = None then (Some (AlreadyExists (Name (h a)) (Namespace (h a))), w)
             else
               let podIP = (case Annotations (h a) ''vk/PodIP'' of None \<Rightarrow> [] | Some ip \<Rightarrow> ip);
                   containerStatusesMap = CreatePod_loop now 0 (Containers (h a)) [];
                   status = \<lparr>PodIP = podIP,
                             Phase = PodRunning,
                             Conditions = [\<lparr>PodCondition_Type = PodReady,
                                            PodCondition_Status = ConditionTrue\<rparr>],
                             ContainerStatuses = containerStatusesMap\<rparr>
               in (None, append_pods (w\<lparr>heap := h(a := (h a)\<lparr>Status := status\<rparr>)\<rparr>) a))"

text \<open>\<^verbatim>\<open>UpdatePod\<close> logs and returns; it does not touch its argument.\<close>

definition UpdatePod :: "world \<Rightarrow> addr option \<Rightarrow> error option \<times> world" where
  "UpdatePod w pod = (None, w)"

text \<open>
  \<^verbatim>\<open>DeletePod\<close>: the loop runs over the local copy \<^verbatim>\<open>pods\<close> of the slice; at the
  first match \<^verbatim>\<open>append(pods[:index], pods[index+1:]...)\<close> becomes the table and the
  loop is left. The argument of the loop function \<open>todo\<close> is the part of \<^verbatim>\<open>pods\<close>
  from \<open>index\<close> on. That \<^verbatim>\<open>append\<close> has room in the array of \<^verbatim>\<open>pods\<close>: it moves the
  elements behind \<open>index\<close> one cell down, in place, and the cells from the new length
  on keep what they held.
\<close>

fun DeletePod_loop ::
  "(addr \<Rightarrow> Pod) \<Rightarrow> string \<Rightarrow> string \<Rightarrow> addr list \<Rightarrow> addr list \<Rightarrow> nat \<Rightarrow> addr list \<Rightarrow> addr list" where
  "DeletePod_loop h namespace name pods' [] index table = table"
| "DeletePod_loop h namespace name pods' (podI # todo) index table =
     (if Name (h podI) = name \<and> Namespace (h podI) = namespace
      then take index pods' @ drop (index + 1) pods'
      else DeletePod_loop h namespace name pods' todo (index + 1) table)"

definition DeletePod :: "world \<Rightarrow> addr option \<Rightarrow> error option \<times> world" where
  "DeletePod w pod =
     (case pod of
        None \<Rightarrow> (Some NilPointerPanic, w)
      | Some a \<Rightarrow>
          let namespace = Namespace (heap w a);
              name = Name (heap w a);
              pods' = pods (prov w);
              table = DeletePod_loop (heap w) namespace name pods' pods' 0 (pods (prov w))
          in (None, w\<lparr>prov := (prov w)\<lparr>pods := table\<rparr>,
                       pods_spare := drop (length table) pods' @ pods_spare w\<rparr>))"

text \<open>
  \<^verbatim>\<open>GetPodStatus\<close>: on an error of \<^verbatim>\<open>GetPod\<close> the address of a new zero status and
  the error; otherwise the address of the status field of the pod found.
\<close>

definition GetPodStatus :: "world \<Rightarrow> string \<Rightarrow> string \<Rightarrow> PodStatus_ptr option \<times> error option" where
  "GetPodStatus w namespace name =
     (case GetPod w namespace name of
        (pod, Some err) \<Rightarrow> (Some (New_PodStatus zero_PodStatus), Some err)
      | (Some a, None) \<Rightarrow> (Some (Status_of a), None)
      | (None, None) \<Rightarrow> (None, Some NilPointerPanic))"

text \<open>
  \<^verbatim>\<open>GetPods\<close> returns \<^verbatim>\<open>p.pods\<close> itself: a slice that points into the array of the
  table.
\<close>

definition GetPods :: "world \<Rightarrow> slice \<times> error option" where
  "GetPods w = (\<lparr>slice_array = pods_array w, slice_len = length (pods (prov w))\<rparr>, None)"

text \<open>
  \<^verbatim>\<open>Capacity\<close>. The parser \<^verbatim>\<open>resource.MustParse\<close> of the Kubernetes library is a
  parameter.
\<close>

definition Capacity :: "(string \<Rightarrow> 'q) \<Rightarrow> world \<Rightarrow> (string \<rightharpoonup> 'q)" where
  "Capacity MustParse w =
     [''cpu'' \<mapsto> MustParse ''20'',
      ''memory'' \<mapsto> MustParse ''100Gi'',
      ''pods'' \<mapsto> MustParse ''20'']"

text \<open>
  \<^verbatim>\<open>NodeConditions\<close>: ten calls of \<^verbatim>\<open>metav1.Now()\<close>, in the order of the composite
  literal.
\<close>

definition NodeConditions :: "(nat \<Rightarrow> Time) \<Rightarrow> world \<Rightarrow> NodeCondition list" where
  "NodeConditions now w =
     [\<lparr>NodeCondition_Type = ''Ready'',
       NodeCondition_Status = ConditionTrue,
       LastHeartbeatTime = now 0,
       LastTransitionTime = now 1,
       Reason = ''KubeletReady'',
       Message = ''kubelet is ready.''\<rparr>,
      \<lparr>NodeCondition_Type = ''OutOfDisk'',
       NodeCondition_Status = ConditionFalse,
       LastHeartbeatTime = now 2,
       LastTransitionTime = now 3,
       Reason = ''KubeletHasSufficientDisk'',
       Message = ''kubelet has sufficient disk space available''\<rparr>,
      \<lparr>NodeCondition_Type = ''MemoryPressure'',
       NodeCondition_Status = ConditionFalse,
       LastHeartbeatTime = now 4,
       LastTransitionTime = now 5,
       Reason = ''KubeletHasSufficientMemory'',
       Message = ''kubelet has sufficient memory available''\<rparr>,
      \<lparr>NodeCondition_Type = ''DiskPressure'',
       NodeCondition_Status = ConditionFalse,
       LastHeartbeatTime = now 6,
       LastTransitionTime = now 7,
       Reason = ''KubeletHasNoDiskPressure'',
       Message = ''kubelet has no disk pressure''\<rparr>,
      \<lparr>NodeCondition_Type = ''NetworkUnavailable'',
       NodeCondition_Status = ConditionFalse,
       LastHeartbeatTime = now 8,
       LastTransitionTime = now 9,
       Reason = ''RouteCreated'',
       Message = ''RouteController created a route''\<rparr>]"

section \<open>Sequences of operations\<close>

text \<open>
  The lifecycle requests a caller can make, and the state after a sequence of them.
  A panic ends the run. Between two requests of a run nothing writes to the store: the
  pod objects and the array of the table change only where the provider changes them.
  The writes of a caller to what it shares with the provider are \<open>caller_write\<close> and
  \<open>slice_write\<close> below.
\<close>

datatype op = Create "nat \<Rightarrow> Time" "addr option" | Update "addr option" | Delete "addr option"

fun step :: "world \<Rightarrow> op \<Rightarrow> error option \<times> world" where
  "step w (Create now pod) = CreatePod now w pod"
| "step w (Update pod) = UpdatePod w pod"
| "step w (Delete pod) = DeletePod w pod"

fun run :: "world \<Rightarrow> op list \<Rightarrow> world" where
  "run w [] = w"
| "run w (x # xs) =
     (case step w x of
        (Some NilPointerPanic, w') \<Rightarrow> w'
      | (_, w') \<Rightarrow> run w' xs)"

text \<open>The empty registry over a heap \<open>h\<close>, in a runtime with the growth policy \<open>grow\<close>.\<close>

definition initial ::
  "(addr \<Rightarrow> Pod) \<Rightarrow> addr option \<Rightarrow> string \<Rightarrow> string \<Rightarrow> (nat \<Rightarrow> nat \<Rightarrow> nat) \<Rightarrow> world" where
  "initial h rm nodeName' operatingSystem' grow =
     \<lparr>heap = h, prov = fst (NewProvider rm nodeName' operatingSystem'),
      pods_array = 0, pods_cap = 0, pods_spare = [], old_arrays = (\<lambda>_. []),
      growslice = grow\<rparr>"

text \<open>The identity of the pod at an address, and the records of a table with an identity.\<close>

definition identity :: "(addr \<Rightarrow> Pod) \<Rightarrow> addr \<Rightarrow> string \<times> string" where
  "identity h a = (Namespace (h a), Name (h a))"

definition records_of :: "world \<Rightarrow> string \<times> string \<Rightarrow> addr list" where
  "records_of w i = filter (\<lambda>a. identity (heap w) a = i) (pods (prov w))"

text \<open>The uniqueness invariant: no two entries of the table have the same identity.\<close>

definition unique_identities :: "world \<Rightarrow> bool" where
  "unique_identities w = distinct (map (identity (heap w)) (pods (prov w)))"

text \<open>
  A write by a caller through a pointer \<open>a\<close> it holds, to the pod object or to fields of
  it: the pod object at \<open>a\<close> becomes \<open>v\<close>. The provider is not involved. The maps and
  slices inside a pod are modelled by their contents, so a write into a map or an array
  that several pod objects share (a copy of a struct shares them with its original) is a
  write to each of these objects.
\<close>

definition caller_write :: "world \<Rightarrow> addr \<Rightarrow> Pod \<Rightarrow> world" where
  "caller_write w a v = w\<lparr>heap := (heap w)(a := v)\<rparr>"

text \<open>
  What a caller reads in a slice \<open>s\<close> it holds, \<^verbatim>\<open>s[0], ..., s[len(s)-1]\<close>: the cells of
  the array of \<open>s\<close>, which is the array of the table or one the table has left.
\<close>

definition read_slice :: "world \<Rightarrow> slice \<Rightarrow> addr list" where
  "read_slice w s =
     take (slice_len s)
       (if slice_array s = pods_array w then pods (prov w) @ pods_spare w
        else old_arrays w (slice_array s))"


section \<open>A concrete registry\<close>

text \<open>
  Three pod objects: a pod \<^verbatim>\<open>default/web\<close> with one container and an IP annotation at
  address 0, a pod \<^verbatim>\<open>default/db\<close> with two containers and an annotation that is no IP address
  at address 1,
  and at every other address a second pod object that is also called \<^verbatim>\<open>default/web\<close>
  but declares other containers.
\<close>

definition web_pod :: Pod where
  "web_pod = \<lparr>Name = ''web'', Namespace = ''default'',
     Annotations = [''vk/PodIP'' \<mapsto> ''10.0.0.7''],
     Containers = [\<lparr>Container_Name = ''nginx''\<rparr>],
     Status = zero_PodStatus\<rparr>"

definition db_pod :: Pod where
  "db_pod = \<lparr>Name = ''db'', Namespace = ''default'',
     Annotations = [''vk/PodIP'' \<mapsto> ''not an address''],
     Containers = [\<lparr>Container_Name = ''postgres''\<rparr>, \<lparr>Container_Name = ''backup''\<rparr>],
     Status = zero_PodStatus\<rparr>"

definition web_pod' :: Pod where
  "web_pod' = \<lparr>Name = ''web'', Namespace = ''default'',
     Annotations = Map.empty,
     Containers = [\<lparr>Container_Name = ''apache''\<rparr>, \<lparr>Container_Name = ''logger''\<rparr>],
     Status = zero_PodStatus\<rparr>"

definition example_heap :: "addr \<Rightarrow> Pod" where
  "example_heap a = (if a = 0 then web_pod else if a = 1 then db_pod else web_pod')"

definition example_clock :: "nat \<Rightarrow> Time" where
  "example_clock k = 1000 + int k"

text \<open>A runtime that doubles the capacity: 1, 2, 4, 8 and so on.\<close>

definition example_growslice :: "nat \<Rightarrow> nat \<Rightarrow> nat" where
  "example_growslice old needed = 2 * old"

definition world0 :: world where
  "world0 = initial example_heap None ''node0'' ''Linux'' example_growslice"

text \<open>After \<^verbatim>\<open>CreatePod\<close> of the pod at address 0, and then of the pod at address 1.\<close>

definition world1 :: world where
  "world1 = run world0 [Create example_clock (Some 0)]"

definition world2 :: world where
  "world2 = run world0 [Create example_clock (Some 0), Create example_clock (Some 1)]"

text \<open>
  A longer run: the second \<^verbatim>\<open>CreatePod\<close> is a duplicate and is rejected, \<^verbatim>\<open>DeletePod\<close>
  removes \<^verbatim>\<open>default/web\<close>, and the last \<^verbatim>\<open>CreatePod\<close> registers the other pod object of
  that identity.
\<close>

definition world3 :: world where
  "world3 = run world0 [Create example_clock (Some 0), Create example_clock (Some 2),
     Create example_clock (Some 1), Delete (Some 2), Create example_clock (Some 2)]"

section \<open>Facts about the scans\<close>

lemma DeletePod_loop_absent:
  "\<forall>b \<in> set todo. identity h b \<noteq> (namespace, name) \<Longrightarrow>
     DeletePod_loop h namespace name ps todo index table = table"
  by (induction todo arbitrary: index) (auto simp: identity_def)

lemma DeletePod_loop_present:
  "\<forall>b \<in> set xs. identity h b \<noteq> (namespace, name) \<Longrightarrow> identity h a = (namespace, name) \<Longrightarrow>
     DeletePod_loop h namespace name (pre @ xs @ a # ys) (xs @ a # ys) (length pre) table
       = pre @ xs @ ys"
proof (induction xs arbitrary: pre)
  case Nil
  then show ?case by (simp add: identity_def)
next
  case (Cons x xs)
  from Cons.prems have nx: "\<not> (Name (h x) = name \<and> Namespace (h x) = namespace)"
    by (auto simp: identity_def)
  from Cons.prems have "\<forall>b \<in> set xs. identity h b \<noteq> (namespace, name)" by simp
  from Cons.IH [OF this Cons.prems(2), of "pre @ [x]"] nx show ?case by auto
qed

lemma CreatePod_loop_eq:
  "CreatePod_loop now k cs acc =
     acc @ map (\<lambda>(i, c). \<lparr>ContainerStatus_Name = Container_Name c,
                State = \<lparr>Running = Some \<lparr>StartedAt = now i\<rparr>\<rparr>,
                Ready = True, RestartCount = 0\<rparr>) (enumerate k cs)"
  by (induction cs arbitrary: k acc) (simp_all add: Let_def)

lemma filter_distinct_le1:
  "distinct (map f xs) \<Longrightarrow> length (filter (\<lambda>a. f a = i) xs) \<le> Suc 0"
  by (induction xs) (force simp: filter_empty_conv image_iff)+

lemma GetPod_loop_filter:
  "GetPod_loop h ps namespace name =
     (case filter (\<lambda>a. identity h a = (namespace, name)) ps of [] \<Rightarrow> None | a # _ \<Rightarrow> Some a)"
  by (induction ps) (auto simp: identity_def)

lemma GetPod_eq:
  "GetPod w namespace name =
     (case records_of w (namespace, name) of
        [] \<Rightarrow> (None, Some (NotFound name namespace))
      | a # _ \<Rightarrow> (Some a, None))"
  by (simp add: GetPod_def GetPod_loop_filter records_of_def split: list.splits)

lemma identity_Status_update:
  "identity (h(a := (h a)\<lparr>Status := s\<rparr>)) = identity h"
  by (rule ext) (simp add: identity_def)

section \<open>Facts about the operations\<close>

lemma append_pods_heap [simp]: "heap (append_pods w a) = heap w"
  by (simp add: append_pods_def)

lemma append_pods_prov [simp]:
  "prov (append_pods w a) = (prov w)\<lparr>pods := pods (prov w) @ [a]\<rparr>"
  by (simp add: append_pods_def)

lemma append_pods_growslice [simp]: "growslice (append_pods w a) = growslice w"
  by (simp add: append_pods_def)

lemma CreatePod_absent:
  assumes "records_of w (identity (heap w) a) = []"
  shows "CreatePod now w (Some a) =
    (None, append_pods (w\<lparr>heap := (heap w)(a := (heap w a)\<lparr>Status :=
               \<lparr>PodIP = (case Annotations (heap w a) ''vk/PodIP'' of None \<Rightarrow> [] | Some ip \<Rightarrow> ip),
                Phase = PodRunning,
                Conditions = [\<lparr>PodCondition_Type = PodReady, PodCondition_Status = ConditionTrue\<rparr>],
                ContainerStatuses = CreatePod_loop now 0 (Containers (heap w a)) []\<rparr>\<rparr>)\<rparr>) a)"
proof -
  from assms have "GetPod w (Namespace (heap w a)) (Name (heap w a))
      = (None, Some (NotFound (Name (heap w a)) (Namespace (heap w a))))"
    by (simp add: GetPod_eq identity_def)
  then show ?thesis by (simp add: CreatePod_def Let_def)
qed

lemma CreatePod_present:
  assumes "records_of w (identity (heap w) a) \<noteq> []"
  shows "CreatePod now w (Some a) =
    (Some (AlreadyExists (Name (heap w a)) (Namespace (heap w a))), w)"
proof -
  from assms have "snd (GetPod w (Namespace (heap w a)) (Name (heap w a))) = None"
    by (simp add: GetPod_eq identity_def split: list.splits)
  then show ?thesis by (simp add: CreatePod_def Let_def)
qed

lemma drop_length_Cons: "drop (length ys) (b # ys) = [last (b # ys)]"
  by (induction ys arbitrary: b) simp_all

lemma DeletePod_absent:
  assumes "records_of w (identity (heap w) a) = []"
  shows "DeletePod w (Some a) = (None, w)"
proof -
  from assms have "\<forall>b \<in> set (pods (prov w)).
      identity (heap w) b \<noteq> (Namespace (heap w a), Name (heap w a))"
    by (simp add: records_of_def filter_empty_conv identity_def)
  then show ?thesis
    by (simp add: DeletePod_def Let_def DeletePod_loop_absent)
qed

lemma DeletePod_present:
  assumes "pods (prov w) = xs @ b # ys"
    and "identity (heap w) b = identity (heap w) a"
    and "\<forall>c \<in> set xs. identity (heap w) c \<noteq> identity (heap w) a"
  shows "DeletePod w (Some a) =
    (None, w\<lparr>prov := (prov w)\<lparr>pods := xs @ ys\<rparr>,
              pods_spare := last (b # ys) # pods_spare w\<rparr>)"
proof -
  have "DeletePod_loop (heap w) (Namespace (heap w a)) (Name (heap w a))
          ([] @ xs @ b # ys) (xs @ b # ys) (length ([] :: addr list)) (pods (prov w))
        = [] @ xs @ ys"
    using assms(2,3) by (intro DeletePod_loop_present) (simp_all add: identity_def)
  moreover have "drop (length (xs @ ys)) (xs @ b # ys) = [last (b # ys)]"
    by (simp only: length_append drop_append) (simp add: drop_length_Cons)
  ultimately show ?thesis using assms(1)
    by (simp add: DeletePod_def Let_def del: last.simps)
qed

lemma records_of_split:
  assumes "records_of w i \<noteq> []"
  shows "\<exists>xs b ys. pods (prov w) = xs @ b # ys \<and> identity (heap w) b = i \<and>
           (\<forall>c \<in> set xs. identity (heap w) c \<noteq> i)"
proof -
  from assms obtain b where "b \<in> set (pods (prov w))" "identity (heap w) b = i"
    by (auto simp: records_of_def filter_empty_conv)
  then have "\<exists>x \<in> set (pods (prov w)). identity (heap w) x = i" by blast
  from split_list_first_prop [OF this] show ?thesis by blast
qed

section \<open>The uniqueness invariant\<close>

lemma CreatePod_unique:
  assumes "unique_identities w"
  shows "unique_identities (snd (CreatePod now w pod))"
proof (cases pod)
  case None
  with assms show ?thesis by (simp add: CreatePod_def)
next
  case (Some a)
  show ?thesis
  proof (cases "records_of w (identity (heap w) a) = []")
    case True
    then have "identity (heap w) a \<notin> identity (heap w) ` set (pods (prov w))"
      by (auto simp: records_of_def filter_empty_conv)
    with assms show ?thesis
      by (simp add: Some CreatePod_absent [OF True] unique_identities_def identity_Status_update)
  next
    case False
    with assms show ?thesis by (simp add: Some CreatePod_present)
  qed
qed

lemma DeletePod_unique:
  assumes "unique_identities w"
  shows "unique_identities (snd (DeletePod w pod))"
proof (cases pod)
  case None
  with assms show ?thesis by (simp add: DeletePod_def)
next
  case (Some a)
  show ?thesis
  proof (cases "records_of w (identity (heap w) a) = []")
    case True
    with assms show ?thesis by (simp add: Some DeletePod_absent)
  next
    case False
    from records_of_split [OF this] obtain xs b ys where
      s: "pods (prov w) = xs @ b # ys" and i: "identity (heap w) b = identity (heap w) a"
      and n: "\<forall>c \<in> set xs. identity (heap w) c \<noteq> identity (heap w) a" by blast
    from assms s show ?thesis
      by (simp add: Some DeletePod_present [OF s i n] unique_identities_def)
  qed
qed

lemma step_unique: "unique_identities w \<Longrightarrow> unique_identities (snd (step w x))"
  by (cases x) (simp_all add: CreatePod_unique DeletePod_unique UpdatePod_def)

lemma run_unique: "unique_identities w \<Longrightarrow> unique_identities (run w xs)"
proof (induction xs arbitrary: w)
  case Nil
  then show ?case by simp
next
  case (Cons x xs)
  obtain e w' where s: "step w x = (e, w')" by (cases "step w x")
  with step_unique [OF Cons.prems, of x] have u: "unique_identities w'" by simp
  show ?case
  proof (cases "e = Some NilPointerPanic")
    case True
    with s u show ?thesis by simp
  next
    case False
    with s have "run w (x # xs) = run w' xs"
      by (auto split: option.splits error.splits)
    with Cons.IH [OF u] show ?thesis by simp
  qed
qed

lemma initial_unique: "unique_identities (initial h rm nn os grow)"
  by (simp add: unique_identities_def initial_def NewProvider_def)

lemma unique_records_le1:
  "unique_identities w \<Longrightarrow> length (records_of w i) \<le> Suc 0"
  unfolding unique_identities_def records_of_def by (rule filter_distinct_le1)

lemma CreatePod_loop_names:
  "map ContainerStatus_Name (CreatePod_loop now k cs acc) =
     map ContainerStatus_Name acc @ map Container_Name cs"
  by (induction cs arbitrary: k acc) (simp_all add: Let_def)

lemma CreatePod_loop_running:
  "\<forall>s \<in> set (CreatePod_loop now k cs []).
      Ready s \<and> RestartCount s = 0 \<and> Running (State s) \<noteq> None"
  by (auto simp: CreatePod_loop_eq)

lemma records_of_CreatePod:
  assumes "records_of w (identity (heap w) a) = []"
  shows "records_of (snd (CreatePod now w (Some a))) (identity (heap w) a) = [a]"
proof -
  from assms have f: "filter (\<lambda>b. identity (heap w) b = identity (heap w) a) (pods (prov w)) = []"
    by (simp only: records_of_def)
  have "records_of (snd (CreatePod now w (Some a))) (identity (heap w) a) =
      filter (\<lambda>b. identity (heap w) b = identity (heap w) a) (pods (prov w) @ [a])"
    by (simp add: CreatePod_absent [OF assms] records_of_def identity_Status_update
        del: filter_append)
  also have "\<dots> = [a]"
    by (simp only: filter_append f) simp
  finally show ?thesis .
qed

lemma CreatePod_then_GetPod:
  assumes "records_of w (identity (heap w) a) = []"
  shows "GetPod (snd (CreatePod now w (Some a))) (Namespace (heap w a)) (Name (heap w a))
           = (Some a, None)"
proof -
  have "records_of (snd (CreatePod now w (Some a))) (Namespace (heap w a), Name (heap w a)) = [a]"
    using records_of_CreatePod [OF assms, of now] by (simp only: identity_def)
  then show ?thesis by (simp only: GetPod_eq list.case)
qed

lemma DeletePod_unique_filter:
  assumes "unique_identities w"
  shows "pods (prov (snd (DeletePod w (Some a)))) =
     filter (\<lambda>b. identity (heap w) b \<noteq> identity (heap w) a) (pods (prov w))"
proof (cases "records_of w (identity (heap w) a) = []")
  case True
  then have "\<forall>b \<in> set (pods (prov w)). identity (heap w) b \<noteq> identity (heap w) a"
    by (simp add: records_of_def filter_empty_conv)
  then have "filter (\<lambda>b. identity (heap w) b \<noteq> identity (heap w) a) (pods (prov w))
      = pods (prov w)"
    by (simp add: filter_id_conv)
  then show ?thesis by (simp add: DeletePod_absent [OF True])
next
  case False
  from records_of_split [OF this] obtain xs b ys where
    s: "pods (prov w) = xs @ b # ys" and i: "identity (heap w) b = identity (heap w) a"
    and n: "\<forall>c \<in> set xs. identity (heap w) c \<noteq> identity (heap w) a" by blast
  from assms s i have "\<forall>c \<in> set ys. identity (heap w) c \<noteq> identity (heap w) a"
    by (auto simp: unique_identities_def) (metis imageI)
  with n have "filter (\<lambda>b. identity (heap w) b \<noteq> identity (heap w) a) (xs @ b # ys) = xs @ ys"
    by (simp add: i filter_id_conv)
  then show ?thesis by (simp add: DeletePod_present [OF s i n] s)
qed

lemma records_of_hd:
  assumes "records_of w i \<noteq> []"
  shows "hd (records_of w i) \<in> set (pods (prov w)) \<and> identity (heap w) (hd (records_of w i)) = i"
proof -
  from assms have "hd (records_of w i) \<in> set (records_of w i)" by (rule hd_in_set)
  then show ?thesis by (simp add: records_of_def)
qed


lemma read_slice_GetPods: "read_slice w (fst (GetPods w)) = pods (prov w)"
  by (simp add: read_slice_def GetPods_def)

section \<open>Writes by callers\<close>



lemma caller_write_prov [simp]: "prov (caller_write w a v) = prov w"
  by (simp add: caller_write_def)





section \<open>Further facts\<close>

lemma run_step:
  "fst (step w x) \<noteq> Some NilPointerPanic \<Longrightarrow> run w (x # xs) = run (snd (step w x)) xs"
  by (cases "step w x") (auto split: option.splits error.splits)

lemma run_Create_absent:
  assumes "records_of w (identity (heap w) a) = []"
  shows "run w (Create now (Some a) # xs) = run (snd (CreatePod now w (Some a))) xs"
  using run_step [of w "Create now (Some a)" xs]
  by (simp add: CreatePod_absent [OF assms])

lemma run_Create_present:
  assumes "records_of w (identity (heap w) a) \<noteq> []"
  shows "run w (Create now (Some a) # xs) = run w xs"
  using run_step [of w "Create now (Some a)" xs]
  by (simp add: CreatePod_present [OF assms] AlreadyExists_def)

lemma run_Delete:
  "run w (Delete (Some a) # xs) = run (snd (DeletePod w (Some a))) xs"
  using run_step [of w "Delete (Some a)" xs]
  by (simp add: DeletePod_def Let_def)

lemma AlreadyExists_neq_NotFound: "AlreadyExists n ns \<noteq> NotFound n' ns'"
proof
  assume "AlreadyExists n ns = NotFound n' ns'"
  then have "last (''Pod: '' @ [dquote] @ n @ [dquote] @ '' in namespace '' @
             [dquote] @ ns @ [dquote] @ '' exist'') = last (''Pod: '' @ [dquote] @ n' @ [dquote] @ '' in namespace '' @
             [dquote] @ ns' @ [dquote] @ '' not found'')"
    by (simp only: AlreadyExists_def NotFound_def error.inject)
  then show False by simp
qed

section \<open>Facts about the concrete registry\<close>

lemma world0_absent: "records_of world0 i = []"
  by (simp add: world0_def initial_def NewProvider_def records_of_def)

lemma world1_eq:
  "world1 = \<lparr>heap = example_heap(0 := web_pod\<lparr>Status :=
       \<lparr>PodIP = ''10.0.0.7'', Phase = ''Running'',
        Conditions = [\<lparr>PodCondition_Type = ''Ready'', PodCondition_Status = ''True''\<rparr>],
        ContainerStatuses = [\<lparr>ContainerStatus_Name = ''nginx'',
           State = \<lparr>Running = Some \<lparr>StartedAt = 1000\<rparr>\<rparr>, Ready = True, RestartCount = 0\<rparr>]\<rparr>\<rparr>),
     prov = \<lparr>resourceManager = None, nodeName = ''node0'', operatingSystem = ''Linux'',
             pods = [0]\<rparr>,
     pods_array = Suc 0, pods_cap = Suc 0, pods_spare = [], old_arrays = (\<lambda>_. []),
     growslice = example_growslice\<rparr>"
proof -
  have "world1 = snd (CreatePod example_clock world0 (Some 0))"
    by (simp only: world1_def run_Create_absent [OF world0_absent] run.simps(1))
  also have "\<dots> = append_pods (world0\<lparr>heap := (heap world0)(0 := (heap world0 0)\<lparr>Status :=
               \<lparr>PodIP = (case Annotations (heap world0 0) ''vk/PodIP'' of None \<Rightarrow> [] | Some ip \<Rightarrow> ip),
                Phase = PodRunning,
                Conditions = [\<lparr>PodCondition_Type = PodReady, PodCondition_Status = ConditionTrue\<rparr>],
                ContainerStatuses = CreatePod_loop example_clock 0 (Containers (heap world0 0)) []\<rparr>\<rparr>)\<rparr>) 0"
    by (simp only: CreatePod_absent [OF world0_absent] snd_conv)
  also have "\<dots> = \<lparr>heap = example_heap(0 := web_pod\<lparr>Status :=
       \<lparr>PodIP = ''10.0.0.7'', Phase = ''Running'',
        Conditions = [\<lparr>PodCondition_Type = ''Ready'', PodCondition_Status = ''True''\<rparr>],
        ContainerStatuses = [\<lparr>ContainerStatus_Name = ''nginx'',
           State = \<lparr>Running = Some \<lparr>StartedAt = 1000\<rparr>\<rparr>, Ready = True, RestartCount = 0\<rparr>]\<rparr>\<rparr>),
     prov = \<lparr>resourceManager = None, nodeName = ''node0'', operatingSystem = ''Linux'',
             pods = [0]\<rparr>,
     pods_array = Suc 0, pods_cap = Suc 0, pods_spare = [], old_arrays = (\<lambda>_. []),
     growslice = example_growslice\<rparr>"
    by (simp add: world0_def initial_def NewProvider_def append_pods_def example_heap_def
        web_pod_def example_clock_def PodRunning_def PodReady_def ConditionTrue_def
        example_growslice_def fun_upd_idem)
  finally show ?thesis .
qed


lemma run_steps_world1: "run world0 (Create example_clock (Some 0) # xs) = run world1 xs"
  by (simp only: world1_def run_Create_absent [OF world0_absent] run.simps(1))

lemma world1_identity:
  "identity (heap world1) 0 = (''default'', ''web'')"
  "identity (heap world1) (Suc 0) = (''default'', ''db'')"
  "identity (heap world1) 2 = (''default'', ''web'')"
  by (simp_all add: world1_eq identity_def example_heap_def web_pod_def db_pod_def web_pod'_def)

lemma world1_pods: "pods (prov world1) = [0]"
  by (simp add: world1_eq)

lemma world1_records:
  "records_of world1 (''default'', ''web'') = [0]"
  "records_of world1 (''default'', ''db'') = []"
  by (simp_all add: records_of_def world1_pods world1_identity)

lemma world1_absent_db: "records_of world1 (identity (heap world1) (Suc 0)) = []"
  by (simp add: world1_identity world1_records)

lemma world2_step: "world2 = snd (CreatePod example_clock world1 (Some (Suc 0)))"
  by (simp only: world2_def run_steps_world1 run_Create_absent [OF world1_absent_db] run.simps(1)
      One_nat_def)

lemma world2_eq:
  "world2 = \<lparr>heap = example_heap(0 := web_pod\<lparr>Status :=
       \<lparr>PodIP = ''10.0.0.7'', Phase = ''Running'',
        Conditions = [\<lparr>PodCondition_Type = ''Ready'', PodCondition_Status = ''True''\<rparr>],
        ContainerStatuses = [\<lparr>ContainerStatus_Name = ''nginx'',
           State = \<lparr>Running = Some \<lparr>StartedAt = 1000\<rparr>\<rparr>, Ready = True, RestartCount = 0\<rparr>]\<rparr>\<rparr>,
       Suc 0 := db_pod\<lparr>Status :=
       \<lparr>PodIP = ''not an address'', Phase = ''Running'',
        Conditions = [\<lparr>PodCondition_Type = ''Ready'', PodCondition_Status = ''True''\<rparr>],
        ContainerStatuses = [\<lparr>ContainerStatus_Name = ''postgres'',
           State = \<lparr>Running = Some \<lparr>StartedAt = 1000\<rparr>\<rparr>, Ready = True, RestartCount = 0\<rparr>,
          \<lparr>ContainerStatus_Name = ''backup'',
           State = \<lparr>Running = Some \<lparr>StartedAt = 1001\<rparr>\<rparr>, Ready = True, RestartCount = 0\<rparr>]\<rparr>\<rparr>),
     prov = \<lparr>resourceManager = None, nodeName = ''node0'', operatingSystem = ''Linux'',
             pods = [0, Suc 0]\<rparr>,
     pods_array = 2, pods_cap = 2, pods_spare = [], old_arrays = (\<lambda>_. [])(Suc 0 := [0]),
     growslice = example_growslice\<rparr>"
proof -
  note a = world1_absent_db
  have "world2 = snd (CreatePod example_clock world1 (Some (Suc 0)))"
    by (rule world2_step)
  also have "\<dots> = append_pods (world1\<lparr>heap := (heap world1)(Suc 0 := (heap world1 (Suc 0))\<lparr>Status :=
               \<lparr>PodIP = (case Annotations (heap world1 (Suc 0)) ''vk/PodIP'' of None \<Rightarrow> [] | Some ip \<Rightarrow> ip),
                Phase = PodRunning,
                Conditions = [\<lparr>PodCondition_Type = PodReady, PodCondition_Status = ConditionTrue\<rparr>],
                ContainerStatuses = CreatePod_loop example_clock 0 (Containers (heap world1 (Suc 0))) []\<rparr>\<rparr>)\<rparr>) (Suc 0)"
    by (simp only: CreatePod_absent [OF a] snd_conv)
  also have "\<dots> = \<lparr>heap = example_heap(0 := web_pod\<lparr>Status :=
       \<lparr>PodIP = ''10.0.0.7'', Phase = ''Running'',
        Conditions = [\<lparr>PodCondition_Type = ''Ready'', PodCondition_Status = ''True''\<rparr>],
        ContainerStatuses = [\<lparr>ContainerStatus_Name = ''nginx'',
           State = \<lparr>Running = Some \<lparr>StartedAt = 1000\<rparr>\<rparr>, Ready = True, RestartCount = 0\<rparr>]\<rparr>\<rparr>,
       Suc 0 := db_pod\<lparr>Status :=
       \<lparr>PodIP = ''not an address'', Phase = ''Running'',
        Conditions = [\<lparr>PodCondition_Type = ''Ready'', PodCondition_Status = ''True''\<rparr>],
        ContainerStatuses = [\<lparr>ContainerStatus_Name = ''postgres'',
           State = \<lparr>Running = Some \<lparr>StartedAt = 1000\<rparr>\<rparr>, Ready = True, RestartCount = 0\<rparr>,
          \<lparr>ContainerStatus_Name = ''backup'',
           State = \<lparr>Running = Some \<lparr>StartedAt = 1001\<rparr>\<rparr>, Ready = True, RestartCount = 0\<rparr>]\<rparr>\<rparr>),
     prov = \<lparr>resourceManager = None, nodeName = ''node0'', operatingSystem = ''Linux'',
             pods = [0, Suc 0]\<rparr>,
     pods_array = 2, pods_cap = 2, pods_spare = [], old_arrays = (\<lambda>_. [])(Suc 0 := [0]),
     growslice = example_growslice\<rparr>"
    by (simp add: world1_eq append_pods_def example_heap_def
        db_pod_def example_clock_def PodRunning_def PodReady_def ConditionTrue_def
        example_growslice_def)
  finally show ?thesis .
qed

lemma world2_identity:
  "identity (heap world2) 0 = (''default'', ''web'')"
  "identity (heap world2) (Suc 0) = (''default'', ''db'')"
  "identity (heap world2) 2 = (''default'', ''web'')"
  by (simp_all add: world2_eq identity_def example_heap_def web_pod_def db_pod_def web_pod'_def)

lemma world2_pods: "pods (prov world2) = [0, Suc 0]"
  by (simp add: world2_eq)

lemma world2_unique: "unique_identities world2"
  by (simp add: unique_identities_def world2_pods world2_identity)

lemma world2_records:
  "records_of world2 (''default'', ''db'') = [Suc 0]"
  "records_of world2 (''default'', ''api'') = []"
  by (simp_all add: records_of_def world2_pods world2_identity)


lemma DeletePod_world2:
  "DeletePod world2 (Some 2) =
     (None, world2\<lparr>prov := (prov world2)\<lparr>pods := [Suc 0]\<rparr>, pods_spare := [Suc 0]\<rparr>)"
proof -
  have s: "pods (prov world2) = [] @ 0 # [Suc 0]" by (simp add: world2_pods)
  have i: "identity (heap world2) 0 = identity (heap world2) 2" by (simp add: world2_identity)
  have n: "\<forall>c \<in> set []. identity (heap world2) c \<noteq> identity (heap world2) 2" by simp
  have e: "pods_spare world2 = []" by (simp add: world2_eq)
  from DeletePod_present [OF s i n] show ?thesis by (simp add: e)
qed

lemma world3_step:
  "world3 = snd (CreatePod example_clock (snd (DeletePod world2 (Some 2))) (Some 2))"
proof -
  have p: "records_of world1 (identity (heap world1) 2) \<noteq> []"
    by (simp add: world1_identity world1_records)
  have a: "records_of (snd (DeletePod world2 (Some 2)))
      (identity (heap (snd (DeletePod world2 (Some 2)))) 2) = []"
    by (simp add: DeletePod_world2 records_of_def world2_identity)
  have "world3 = run world1 [Create example_clock (Some 2), Create example_clock (Some (Suc 0)),
      Delete (Some 2), Create example_clock (Some 2)]"
    by (simp only: world3_def run_steps_world1 One_nat_def)
  also have "\<dots> = run world1 [Create example_clock (Some (Suc 0)),
      Delete (Some 2), Create example_clock (Some 2)]"
    by (rule run_Create_present [OF p])
  also have "\<dots> = run world2 [Delete (Some 2), Create example_clock (Some 2)]"
    by (simp only: run_Create_absent [OF world1_absent_db] world2_step [symmetric])
  also have "\<dots> = run (snd (DeletePod world2 (Some 2))) [Create example_clock (Some 2)]"
    by (rule run_Delete)
  also have "\<dots> = run (snd (CreatePod example_clock (snd (DeletePod world2 (Some 2))) (Some 2))) []"
    by (rule run_Create_absent [OF a])
  finally show ?thesis by (simp only: run.simps(1))
qed

lemma world3_pods: "pods (prov world3) = [Suc 0, 2]"
proof -
  have a: "records_of (snd (DeletePod world2 (Some 2)))
      (identity (heap (snd (DeletePod world2 (Some 2)))) 2) = []"
    by (simp add: DeletePod_world2 records_of_def world2_identity)
  show ?thesis
    by (simp add: world3_step CreatePod_absent [OF a]) (simp add: DeletePod_world2)
qed

lemma world3_identity:
  "identity (heap world3) (Suc 0) = (''default'', ''db'')"
  "identity (heap world3) 2 = (''default'', ''web'')"
proof -
  have a: "records_of (snd (DeletePod world2 (Some 2)))
      (identity (heap (snd (DeletePod world2 (Some 2)))) 2) = []"
    by (simp add: DeletePod_world2 records_of_def world2_identity)
  have "identity (heap world3) = identity (heap world2)"
    by (simp add: world3_step CreatePod_absent [OF a] identity_Status_update)
       (simp add: DeletePod_world2)
  then show "identity (heap world3) (Suc 0) = (''default'', ''db'')"
    "identity (heap world3) 2 = (''default'', ''web'')"
    by (simp_all add: world2_identity)
qed

text \<open>
  The slices that \<^verbatim>\<open>GetPods\<close> returned earlier. The slice returned in \<open>world2\<close> points
  into the array of the table, so \<^verbatim>\<open>DeletePod\<close>, which moves the elements in place,
  changes what the caller reads in it. The slice returned in \<open>world1\<close> points into the
  array that the second \<^verbatim>\<open>CreatePod\<close> left behind when it had to allocate.
\<close>

lemma earlier_slice_after_DeletePod:
  "read_slice world2 (fst (GetPods world2)) = [0, Suc 0]"
  "read_slice (snd (DeletePod world2 (Some 2))) (fst (GetPods world2)) = [Suc 0, Suc 0]"
  by (simp_all add: DeletePod_world2 read_slice_def GetPods_def world2_pods)

lemma earlier_slice_after_growth:
  "read_slice world1 (fst (GetPods world1)) = [0]"
  "read_slice world2 (fst (GetPods world1)) = [0]"
  "slice_array (fst (GetPods world1)) \<noteq> pods_array world2"
  by (simp_all add: read_slice_def GetPods_def world1_eq world2_eq)



section \<open>The claims\<close>

text \<open>
  C1. After every sequence of \<^verbatim>\<open>CreatePod\<close>, \<^verbatim>\<open>UpdatePod\<close> and \<^verbatim>\<open>DeletePod\<close> calls that
  starts from the registry \<^verbatim>\<open>NewProvider\<close> returns, over any heap of pod objects, no two
  entries of the table have the same identity: for every identity \<open>i\<close> the table, and so
  the slice \<^verbatim>\<open>GetPods\<close> returns, holds at most one record with that identity. The
  sequence is arbitrary, so this holds after each of its prefixes, that is, at any time.
  During the sequence the pod objects change only where the provider writes to them.
\<close>

theorem uniqueness:
  "unique_identities (run (initial h rm nodeName' operatingSystem' grow) ops) \<and>
   length (records_of (run (initial h rm nodeName' operatingSystem' grow) ops) i) \<le> 1 \<and>
   length (filter
       (\<lambda>a. identity (heap (run (initial h rm nodeName' operatingSystem' grow) ops)) a = i)
       (read_slice (run (initial h rm nodeName' operatingSystem' grow) ops)
          (fst (GetPods (run (initial h rm nodeName' operatingSystem' grow) ops))))) \<le> 1"
proof -
  have u: "unique_identities (run (initial h rm nodeName' operatingSystem' grow) ops)"
    by (rule run_unique [OF initial_unique])
  from unique_records_le1 [OF u, of i] u show ?thesis
    by (simp add: read_slice_GetPods records_of_def)
qed

theorem uniqueness_witness:
  "unique_identities world3 \<and>
   pods (prov world3) = [1, 2] \<and>
   records_of world3 (''default'', ''web'') = [2] \<and>
   length (records_of world3 (''default'', ''web'')) \<le> 1"
  using uniqueness [of example_heap None "''node0''" "''Linux''" example_growslice
      "[Create example_clock (Some 0), Create example_clock (Some 2),
        Create example_clock (Some 1), Delete (Some 2), Create example_clock (Some 2)]"
      "(''default'', ''web'')"]
  unfolding world3_def [symmetric] world0_def [symmetric]
  by (simp add: world3_pods records_of_def world3_identity)

text \<open>
  C2. When the table holds a record with the identity of the pod passed to \<^verbatim>\<open>CreatePod\<close>,
  the call returns the error \<^verbatim>\<open>Pod: "name" in namespace "namespace" exist\<close> and leaves
  the heap and the table as they were. In a registry reached from the empty one by
  lifecycle operations the table then still holds exactly one record of that identity.
\<close>

theorem CreatePod_duplicate:
  assumes "records_of w (identity (heap w) a) \<noteq> []"
  shows "CreatePod now w (Some a) =
           (Some (AlreadyExists (Name (heap w a)) (Namespace (heap w a))), w) \<and>
         (w = run (initial h rm nodeName' operatingSystem' grow) ops \<longrightarrow>
            length (records_of (snd (CreatePod now w (Some a))) (identity (heap w) a)) = 1)"
proof -
  have c: "CreatePod now w (Some a) =
           (Some (AlreadyExists (Name (heap w a)) (Namespace (heap w a))), w)"
    by (rule CreatePod_present [OF assms])
  have "length (records_of w (identity (heap w) a)) = 1"
    if "w = run (initial h rm nodeName' operatingSystem' grow) ops"
  proof -
    from that have "unique_identities w" by (simp add: run_unique [OF initial_unique])
    from unique_records_le1 [OF this, of "identity (heap w) a"] assms
    show ?thesis by (cases "records_of w (identity (heap w) a)") simp_all
  qed
  then have "w = run (initial h rm nodeName' operatingSystem' grow) ops \<longrightarrow>
      length (records_of (snd (CreatePod now w (Some a))) (identity (heap w) a)) = 1"
    by (simp only: c snd_conv) blast
  with c show ?thesis by (rule conjI)
qed

theorem CreatePod_duplicate_witness:
  "records_of world1 (identity (heap world1) 2) \<noteq> [] \<and>
   CreatePod example_clock world1 (Some 2) = (Some (AlreadyExists ''web'' ''default''), world1) \<and>
   length (records_of (snd (CreatePod example_clock world1 (Some 2))) (''default'', ''web'')) = 1"
proof -
  have r: "records_of world1 (identity (heap world1) 2) \<noteq> []"
    by (simp add: world1_eq records_of_def identity_def example_heap_def web_pod_def web_pod'_def)
  have i: "identity (heap world1) 2 = (''default'', ''web'')"
    by (simp add: world1_eq identity_def example_heap_def web_pod'_def)
  have n: "Name (heap world1 2) = ''web''" "Namespace (heap world1 2) = ''default''"
    by (simp_all add: world1_eq example_heap_def web_pod'_def)
  have e: "world1 = run (initial example_heap None ''node0'' ''Linux'' example_growslice)
      [Create example_clock (Some 0)]"
    by (simp only: world1_def world0_def)
  from CreatePod_duplicate [OF r, of example_clock example_heap None "''node0''" "''Linux''"
      example_growslice "[Create example_clock (Some 0)]"] e
  have "CreatePod example_clock world1 (Some 2) =
           (Some (AlreadyExists (Name (heap world1 2)) (Namespace (heap world1 2))), world1) \<and>
        length (records_of (snd (CreatePod example_clock world1 (Some 2)))
           (identity (heap world1) 2)) = 1"
    by blast
  with r show ?thesis unfolding i n by blast
qed

text \<open>
  C3. When the table holds no record with the identity of the pod at \<open>a\<close>, \<^verbatim>\<open>CreatePod\<close>
  returns no error, and \<^verbatim>\<open>GetPod\<close> with the pod's namespace and name then returns \<open>a\<close>.
  The pod there has its name, namespace and containers unchanged; its status has phase
  \<^verbatim>\<open>Running\<close>, the single condition \<^verbatim>\<open>Ready\<close> with status \<^verbatim>\<open>True\<close>, and one container
  status per declared container, in the order of the declaration: the container's name,
  a running state started at the clock reading taken for it, ready, restart count 0.
\<close>

theorem CreatePod_then_GetPod_status:
  assumes "records_of w (identity (heap w) a) = []"
    and "w' = snd (CreatePod now w (Some a))"
  shows "fst (CreatePod now w (Some a)) = None \<and>
         GetPod w' (Namespace (heap w a)) (Name (heap w a)) = (Some a, None) \<and>
         Name (heap w' a) = Name (heap w a) \<and>
         Namespace (heap w' a) = Namespace (heap w a) \<and>
         Containers (heap w' a) = Containers (heap w a) \<and>
         Phase (Status (heap w' a)) = PodRunning \<and>
         Conditions (Status (heap w' a)) =
           [\<lparr>PodCondition_Type = PodReady, PodCondition_Status = ConditionTrue\<rparr>] \<and>
         ContainerStatuses (Status (heap w' a)) =
           map (\<lambda>(k, c). \<lparr>ContainerStatus_Name = Container_Name c,
                           State = \<lparr>Running = Some \<lparr>StartedAt = now k\<rparr>\<rparr>,
                           Ready = True, RestartCount = 0\<rparr>)
               (enumerate 0 (Containers (heap w a))) \<and>
         length (ContainerStatuses (Status (heap w' a))) = length (Containers (heap w a)) \<and>
         map ContainerStatus_Name (ContainerStatuses (Status (heap w' a))) =
           map Container_Name (Containers (heap w a)) \<and>
         (\<forall>s \<in> set (ContainerStatuses (Status (heap w' a))).
            Ready s \<and> RestartCount s = 0 \<and> Running (State s) \<noteq> None)"
proof -
  note c = CreatePod_absent [OF assms(1), of now]
  have st: "ContainerStatuses (Status (heap w' a)) =
      CreatePod_loop now 0 (Containers (heap w a)) []"
    by (simp add: assms(2) c)
  have 1: "fst (CreatePod now w (Some a)) = None" by (simp add: c)
  have 2: "GetPod w' (Namespace (heap w a)) (Name (heap w a)) = (Some a, None)"
    unfolding assms(2) by (rule CreatePod_then_GetPod [OF assms(1)])
  have 3: "Name (heap w' a) = Name (heap w a)" "Namespace (heap w' a) = Namespace (heap w a)"
    "Containers (heap w' a) = Containers (heap w a)"
    by (simp_all add: assms(2) c)
  have 4: "Phase (Status (heap w' a)) = PodRunning"
    "Conditions (Status (heap w' a)) =
           [\<lparr>PodCondition_Type = PodReady, PodCondition_Status = ConditionTrue\<rparr>]"
    by (simp_all add: assms(2) c)
  have 5: "ContainerStatuses (Status (heap w' a)) =
           map (\<lambda>(k, c). \<lparr>ContainerStatus_Name = Container_Name c,
                           State = \<lparr>Running = Some \<lparr>StartedAt = now k\<rparr>\<rparr>,
                           Ready = True, RestartCount = 0\<rparr>)
               (enumerate 0 (Containers (heap w a)))"
    by (simp add: st CreatePod_loop_eq)
  have 6: "length (ContainerStatuses (Status (heap w' a))) = length (Containers (heap w a))"
    by (simp add: 5)
  have 7: "map ContainerStatus_Name (ContainerStatuses (Status (heap w' a))) =
           map Container_Name (Containers (heap w a))"
    by (simp add: st CreatePod_loop_names)
  have 8: "\<forall>s \<in> set (ContainerStatuses (Status (heap w' a))).
            Ready s \<and> RestartCount s = 0 \<and> Running (State s) \<noteq> None"
    unfolding st by (rule CreatePod_loop_running)
  show ?thesis by (intro conjI) (fact 1 2 3 4 5 6 7 8)+
qed

theorem CreatePod_then_GetPod_status_witness:
  "records_of world0 (identity (heap world0) 1) = [] \<and>
   fst (CreatePod example_clock world0 (Some 1)) = None \<and>
   GetPod (snd (CreatePod example_clock world0 (Some 1))) ''default'' ''db'' = (Some 1, None) \<and>
   Phase (Status (heap (snd (CreatePod example_clock world0 (Some 1))) 1)) = ''Running'' \<and>
   Conditions (Status (heap (snd (CreatePod example_clock world0 (Some 1))) 1)) =
     [\<lparr>PodCondition_Type = ''Ready'', PodCondition_Status = ''True''\<rparr>] \<and>
   ContainerStatuses (Status (heap (snd (CreatePod example_clock world0 (Some 1))) 1)) =
     [\<lparr>ContainerStatus_Name = ''postgres'',
       State = \<lparr>Running = Some \<lparr>StartedAt = 1000\<rparr>\<rparr>, Ready = True, RestartCount = 0\<rparr>,
      \<lparr>ContainerStatus_Name = ''backup'',
       State = \<lparr>Running = Some \<lparr>StartedAt = 1001\<rparr>\<rparr>, Ready = True, RestartCount = 0\<rparr>]"
proof -
  have h: "heap world0 (Suc 0) = db_pod"
    by (simp add: world0_def initial_def example_heap_def)
  have e: "enumerate 0 (Containers db_pod) =
      [(0, \<lparr>Container_Name = ''postgres''\<rparr>), (1, \<lparr>Container_Name = ''backup''\<rparr>)]"
    by (simp add: db_pod_def enumerate_eq_zip upt_rec)
  from CreatePod_then_GetPod_status [OF world0_absent refl, where a = 1 and now = example_clock]
  show ?thesis
    by (simp add: world0_absent h e PodRunning_def PodReady_def ConditionTrue_def
        example_clock_def) (simp add: db_pod_def)
qed

text \<open>
  C4. \<^verbatim>\<open>DeletePod\<close> of a pod returns no error and does not touch the heap. When the table
  holds no record with the pod's identity the state is unchanged. Otherwise the first
  record with that identity is taken out of the table and every other entry stays, in
  its place; nothing else of the provider changes, and in the array the cell behind the
  new length keeps the pointer that was last. When the identities of the table are
  distinct, as they are in every reachable registry, the table afterwards is the old one
  without the records of that identity.
\<close>

theorem DeletePod_removes_record:
  "fst (DeletePod w (Some a)) = None \<and>
   heap (snd (DeletePod w (Some a))) = heap w \<and>
   (records_of w (identity (heap w) a) = [] \<longrightarrow> snd (DeletePod w (Some a)) = w) \<and>
   (records_of w (identity (heap w) a) \<noteq> [] \<longrightarrow>
      (\<exists>xs b ys. pods (prov w) = xs @ b # ys \<and>
         identity (heap w) b = identity (heap w) a \<and>
         (\<forall>c \<in> set xs. identity (heap w) c \<noteq> identity (heap w) a) \<and>
         snd (DeletePod w (Some a)) =
           w\<lparr>prov := (prov w)\<lparr>pods := xs @ ys\<rparr>,
             pods_spare := last (b # ys) # pods_spare w\<rparr>)) \<and>
   (unique_identities w \<longrightarrow>
      pods (prov (snd (DeletePod w (Some a)))) =
        filter (\<lambda>b. identity (heap w) b \<noteq> identity (heap w) a) (pods (prov w)))"
proof -
  have 1: "fst (DeletePod w (Some a)) = None" "heap (snd (DeletePod w (Some a))) = heap w"
    by (simp_all add: DeletePod_def Let_def)
  have 2: "snd (DeletePod w (Some a)) = w" if "records_of w (identity (heap w) a) = []"
    by (simp add: DeletePod_absent [OF that])
  have 3: "\<exists>xs b ys. pods (prov w) = xs @ b # ys \<and>
         identity (heap w) b = identity (heap w) a \<and>
         (\<forall>c \<in> set xs. identity (heap w) c \<noteq> identity (heap w) a) \<and>
         snd (DeletePod w (Some a)) =
           w\<lparr>prov := (prov w)\<lparr>pods := xs @ ys\<rparr>,
             pods_spare := last (b # ys) # pods_spare w\<rparr>"
    if "records_of w (identity (heap w) a) \<noteq> []"
  proof -
    from records_of_split [OF that] obtain xs b ys where
      s: "pods (prov w) = xs @ b # ys" and i: "identity (heap w) b = identity (heap w) a"
      and n: "\<forall>c \<in> set xs. identity (heap w) c \<noteq> identity (heap w) a" by blast
    have "snd (DeletePod w (Some a)) =
           w\<lparr>prov := (prov w)\<lparr>pods := xs @ ys\<rparr>,
             pods_spare := last (b # ys) # pods_spare w\<rparr>"
      by (simp only: DeletePod_present [OF s i n] snd_conv)
    with s i n show ?thesis by blast
  qed
  from 1 2 3 DeletePod_unique_filter [of w a] show ?thesis by blast
qed

theorem DeletePod_removes_record_witness:
  "records_of world0 (identity (heap world0) 2) = [] \<and>
   DeletePod world0 (Some 2) = (None, world0) \<and>
   records_of world2 (identity (heap world2) 2) \<noteq> [] \<and>
   unique_identities world2 \<and>
   fst (DeletePod world2 (Some 2)) = None \<and>
   heap (snd (DeletePod world2 (Some 2))) = heap world2 \<and>
   pods (prov world2) = [0, 1] \<and>
   pods (prov (snd (DeletePod world2 (Some 2)))) = [1]"
proof -
  have r: "records_of world2 (identity (heap world2) 2) \<noteq> []"
    by (simp add: records_of_def world2_pods world2_identity)
  from DeletePod_removes_record [of world0 2] DeletePod_removes_record [of world2 2]
  show ?thesis
    using r world2_unique world0_absent
    by (simp add: world2_pods world2_identity prod_eq_iff)
qed

text \<open>
  C5. \<^verbatim>\<open>UpdatePod\<close> returns no error for every state and every argument, the nil pointer
  included, and the state after it is the state before it: heap and table. So every
  query answers after it as it did before.
\<close>

theorem UpdatePod_noop:
  "fst (UpdatePod w pod) = None \<and>
   snd (UpdatePod w pod) = w \<and>
   GetPod (snd (UpdatePod w pod)) namespace name = GetPod w namespace name \<and>
   GetPodStatus (snd (UpdatePod w pod)) namespace name = GetPodStatus w namespace name \<and>
   GetPods (snd (UpdatePod w pod)) = GetPods w"
  by (simp add: UpdatePod_def)


theorem UpdatePod_noop_witness:
  "identity (heap world1) 2 = identity (heap world1) 0 \<and>
   Containers (heap world1 2) \<noteq> Containers (heap world1 0) \<and>
   fst (UpdatePod world1 (Some 2)) = None \<and>
   GetPod (snd (UpdatePod world1 (Some 2))) ''default'' ''web'' = (Some 0, None) \<and>
   heap (snd (UpdatePod world1 (Some 2))) 0 = heap world1 0 \<and>
   map ContainerStatus_Name (ContainerStatuses (Status (heap (snd (UpdatePod world1 (Some 2))) 0)))
     = [''nginx'']"
proof -
  have g: "GetPod world1 ''default'' ''web'' = (Some 0, None)"
    by (simp add: GetPod_def world1_eq web_pod_def)
  have c: "identity (heap world1) 2 = identity (heap world1) 0"
    "Containers (heap world1 2) \<noteq> Containers (heap world1 0)"
    "map ContainerStatus_Name (ContainerStatuses (Status (heap world1 0))) = [''nginx'']"
    by (simp_all add: world1_eq identity_def example_heap_def web_pod_def web_pod'_def)
  from UpdatePod_noop [of world1 "Some 2" "''default''" "''web''"] g c
  show ?thesis by simp
qed

text \<open>
  C6. \<^verbatim>\<open>GetPod\<close> returns an error exactly when the table holds no record with the
  namespace and name asked for, and the error is then
  \<^verbatim>\<open>Pod: "name" in namespace "namespace" not found\<close>. Otherwise it returns, without
  error, the first record of the table with that identity. \<^verbatim>\<open>GetPodStatus\<close> returns the
  error of \<^verbatim>\<open>GetPod\<close>, and when \<^verbatim>\<open>GetPod\<close> returns a record, the address of the status
  field of that record.
\<close>

theorem GetPod_NotFound_iff:
  "(snd (GetPod w namespace name) \<noteq> None \<longleftrightarrow> records_of w (namespace, name) = []) \<and>
   (records_of w (namespace, name) = [] \<longrightarrow>
      GetPod w namespace name = (None, Some (NotFound name namespace))) \<and>
   (records_of w (namespace, name) \<noteq> [] \<longrightarrow>
      GetPod w namespace name = (Some (hd (records_of w (namespace, name))), None) \<and>
      hd (records_of w (namespace, name)) \<in> set (pods (prov w)) \<and>
      identity (heap w) (hd (records_of w (namespace, name))) = (namespace, name)) \<and>
   snd (GetPodStatus w namespace name) = snd (GetPod w namespace name) \<and>
   (fst (GetPod w namespace name) = Some a \<longrightarrow>
      fst (GetPodStatus w namespace name) = Some (Status_of a) \<and>
      read_PodStatus (heap w) (Status_of a) = Status (heap w a))"
proof (cases "records_of w (namespace, name)")
  case Nil
  then show ?thesis by (simp add: GetPod_eq GetPodStatus_def)
next
  case (Cons b bs)
  then have "records_of w (namespace, name) \<noteq> []" by simp
  from records_of_hd [OF this] Cons show ?thesis
    by (simp add: GetPod_eq GetPodStatus_def)
qed

theorem GetPod_NotFound_iff_witness:
  "records_of world2 (''default'', ''api'') = [] \<and>
   GetPod world2 ''default'' ''api'' = (None, Some (NotFound ''api'' ''default'')) \<and>
   snd (GetPodStatus world2 ''default'' ''api'') = Some (NotFound ''api'' ''default'') \<and>
   records_of world2 (''default'', ''db'') \<noteq> [] \<and>
   GetPod world2 ''default'' ''db'' = (Some 1, None) \<and>
   GetPodStatus world2 ''default'' ''db'' = (Some (Status_of 1), None)"
proof -
  from GetPod_NotFound_iff [of world2 "''default''" "''api''"]
  have 1: "GetPod world2 ''default'' ''api'' = (None, Some (NotFound ''api'' ''default''))"
    "snd (GetPodStatus world2 ''default'' ''api'') = snd (GetPod world2 ''default'' ''api'')"
    by (simp_all add: world2_records)
  from GetPod_NotFound_iff [of world2 "''default''" "''db''" "Suc 0"]
  have 2: "GetPod world2 ''default'' ''db'' = (Some (Suc 0), None)"
    by (simp add: world2_records)
  from GetPod_NotFound_iff [of world2 "''default''" "''db''" "Suc 0"] 2
  have 3: "fst (GetPodStatus world2 ''default'' ''db'') = Some (Status_of (Suc 0))"
    "snd (GetPodStatus world2 ''default'' ''db'') = None"
    by simp_all
  from 1 2 3 show ?thesis by (simp add: world2_records prod_eq_iff)
qed

text \<open>
  C7. On a successful \<^verbatim>\<open>CreatePod\<close> the pod IP of the record is the value of the
  annotation \<^verbatim>\<open>vk/PodIP\<close> of the incoming pod, whatever that string is, and the empty
  string when the pod has no such annotation. Success depends on the identity alone.
\<close>

theorem CreatePod_PodIP:
  assumes "records_of w (identity (heap w) a) = []"
    and "w' = snd (CreatePod now w (Some a))"
  shows "fst (CreatePod now w (Some a)) = None \<and>
         fst (GetPod w' (Namespace (heap w a)) (Name (heap w a))) = Some a \<and>
         PodIP (Status (heap w' a)) =
           (case Annotations (heap w a) ''vk/PodIP'' of None \<Rightarrow> [] | Some ip \<Rightarrow> ip)"
  by (simp add: assms(2) CreatePod_then_GetPod [OF assms(1)])
     (simp add: CreatePod_absent [OF assms(1)])

theorem CreatePod_PodIP_witness:
  "records_of world0 (identity (heap world0) 1) = [] \<and>
   records_of world0 (identity (heap world0) 2) = [] \<and>
   fst (CreatePod example_clock world0 (Some 1)) = None \<and>
   PodIP (Status (heap (snd (CreatePod example_clock world0 (Some 1))) 1)) = ''not an address'' \<and>
   fst (CreatePod example_clock world0 (Some 2)) = None \<and>
   PodIP (Status (heap (snd (CreatePod example_clock world0 (Some 2))) 2)) = []"
proof -
  have h: "heap world0 (Suc 0) = db_pod" "heap world0 2 = web_pod'"
    by (simp_all add: world0_def initial_def example_heap_def)
  from CreatePod_PodIP [OF world0_absent refl, where a = 1 and now = example_clock]
    CreatePod_PodIP [OF world0_absent refl, where a = 2 and now = example_clock]
  show ?thesis
    by (simp add: world0_absent h) (simp add: db_pod_def web_pod'_def)
qed

text \<open>
  C8. \<^verbatim>\<open>Capacity\<close> and \<^verbatim>\<open>NodeConditions\<close> do not depend on the state: they return the
  same for any two states, in particular before and after any sequence of lifecycle
  operations. \<^verbatim>\<open>Capacity\<close> is the map with the three keys \<^verbatim>\<open>cpu\<close>, \<^verbatim>\<open>memory\<close> and
  \<^verbatim>\<open>pods\<close>, holding the parsed quantities \<^verbatim>\<open>20\<close>, \<^verbatim>\<open>100Gi\<close> and \<^verbatim>\<open>20\<close>.
  \<^verbatim>\<open>NodeConditions\<close> is a list of five conditions whose types, statuses, reasons and
  messages are fixed, whatever the clock; the time stamps are the ten clock readings of
  the call.
\<close>

theorem node_status_independent_of_table:
  "Capacity MustParse (run w ops) = Capacity MustParse w \<and>
   Capacity MustParse w' = Capacity MustParse w \<and>
   Capacity MustParse w = [''cpu'' \<mapsto> MustParse ''20'', ''memory'' \<mapsto> MustParse ''100Gi'',
                           ''pods'' \<mapsto> MustParse ''20''] \<and>
   dom (Capacity MustParse w) = {''cpu'', ''memory'', ''pods''} \<and>
   NodeConditions now (run w ops) = NodeConditions now w \<and>
   NodeConditions now w' = NodeConditions now w \<and>
   map (\<lambda>c. (NodeCondition_Type c, NodeCondition_Status c, Reason c, Message c))
       (NodeConditions now w) =
     [(''Ready'', ''True'', ''KubeletReady'', ''kubelet is ready.''),
      (''OutOfDisk'', ''False'', ''KubeletHasSufficientDisk'',
         ''kubelet has sufficient disk space available''),
      (''MemoryPressure'', ''False'', ''KubeletHasSufficientMemory'',
         ''kubelet has sufficient memory available''),
      (''DiskPressure'', ''False'', ''KubeletHasNoDiskPressure'',
         ''kubelet has no disk pressure''),
      (''NetworkUnavailable'', ''False'', ''RouteCreated'',
         ''RouteController created a route'')] \<and>
   map (\<lambda>c. (NodeCondition_Type c, NodeCondition_Status c, Reason c, Message c))
       (NodeConditions now' w') =
     map (\<lambda>c. (NodeCondition_Type c, NodeCondition_Status c, Reason c, Message c))
       (NodeConditions now w) \<and>
   map (\<lambda>c. (LastHeartbeatTime c, LastTransitionTime c)) (NodeConditions now w) =
     [(now 0, now 1), (now 2, now 3), (now 4, now 5), (now 6, now 7), (now 8, now 9)]"
proof -
  have c: "Capacity MustParse (run w ops) = Capacity MustParse w"
    "Capacity MustParse w' = Capacity MustParse w"
    "Capacity MustParse w = [''cpu'' \<mapsto> MustParse ''20'', ''memory'' \<mapsto> MustParse ''100Gi'',
                           ''pods'' \<mapsto> MustParse ''20'']"
    by (simp_all only: Capacity_def)
  have d: "dom (Capacity MustParse w) = {''cpu'', ''memory'', ''pods''}"
    by (auto simp: Capacity_def)
  have n: "NodeConditions now (run w ops) = NodeConditions now w"
    "NodeConditions now w' = NodeConditions now w"
    by (simp_all only: NodeConditions_def)
  have s: "map (\<lambda>c. (NodeCondition_Type c, NodeCondition_Status c, Reason c, Message c))
       (NodeConditions now w) =
     [(''Ready'', ''True'', ''KubeletReady'', ''kubelet is ready.''),
      (''OutOfDisk'', ''False'', ''KubeletHasSufficientDisk'',
         ''kubelet has sufficient disk space available''),
      (''MemoryPressure'', ''False'', ''KubeletHasSufficientMemory'',
         ''kubelet has sufficient memory available''),
      (''DiskPressure'', ''False'', ''KubeletHasNoDiskPressure'',
         ''kubelet has no disk pressure''),
      (''NetworkUnavailable'', ''False'', ''RouteCreated'',
         ''RouteController created a route'')]" for now w
    by (simp add: NodeConditions_def ConditionTrue_def ConditionFalse_def)
  have t: "map (\<lambda>c. (LastHeartbeatTime c, LastTransitionTime c)) (NodeConditions now w) =
     [(now 0, now 1), (now 2, now 3), (now 4, now 5), (now 6, now 7), (now 8, now 9)]"
    by (simp add: NodeConditions_def)
  from c d n s [of now w] s [of now' w'] t show ?thesis by (simp only:)
qed

theorem node_status_independent_of_table_witness:
  "Capacity (id :: string \<Rightarrow> string) world2 = Capacity id world0 \<and>
   NodeConditions example_clock world2 = NodeConditions example_clock world0 \<and>
   map NodeCondition_Type (NodeConditions example_clock world2) =
     [''Ready'', ''OutOfDisk'', ''MemoryPressure'', ''DiskPressure'', ''NetworkUnavailable''] \<and>
   map LastHeartbeatTime (NodeConditions example_clock world2) = [1000, 1002, 1004, 1006, 1008]"
proof -
  note t = node_status_independent_of_table [of "id :: string \<Rightarrow> string" world0
      "[Create example_clock (Some 0), Create example_clock (Some 1)]" world2 example_clock
      example_clock, unfolded world2_def [symmetric]]
  from t have 1: "Capacity (id :: string \<Rightarrow> string) world2 = Capacity id world0"
    "NodeConditions example_clock world2 = NodeConditions example_clock world0"
    by blast+
  from t have "map (\<lambda>c. (LastHeartbeatTime c, LastTransitionTime c))
      (NodeConditions example_clock world0) =
     [(example_clock 0, example_clock 1), (example_clock 2, example_clock 3),
      (example_clock 4, example_clock 5), (example_clock 6, example_clock 7),
      (example_clock 8, example_clock 9)]" by blast
  then have "map fst (map (\<lambda>c. (LastHeartbeatTime c, LastTransitionTime c))
      (NodeConditions example_clock world0)) = [1000, 1002, 1004, 1006, 1008]"
    by (simp only:) (simp add: example_clock_def)
  then have 2: "map LastHeartbeatTime (NodeConditions example_clock world0)
      = [1000, 1002, 1004, 1006, 1008]"
    by (simp add: comp_def)
  from t have "map (\<lambda>c. (NodeCondition_Type c, NodeCondition_Status c, Reason c, Message c))
       (NodeConditions example_clock world0) =
     [(''Ready'', ''True'', ''KubeletReady'', ''kubelet is ready.''),
      (''OutOfDisk'', ''False'', ''KubeletHasSufficientDisk'',
         ''kubelet has sufficient disk space available''),
      (''MemoryPressure'', ''False'', ''KubeletHasSufficientMemory'',
         ''kubelet has sufficient memory available''),
      (''DiskPressure'', ''False'', ''KubeletHasNoDiskPressure'',
         ''kubelet has no disk pressure''),
      (''NetworkUnavailable'', ''False'', ''RouteCreated'',
         ''RouteController created a route'')]" by blast
  then have "map fst (map (\<lambda>c. (NodeCondition_Type c, NodeCondition_Status c, Reason c, Message c))
       (NodeConditions example_clock world0)) =
     [''Ready'', ''OutOfDisk'', ''MemoryPressure'', ''DiskPressure'', ''NetworkUnavailable'']"
    by (simp only:) simp
  then have 3: "map NodeCondition_Type (NodeConditions example_clock world0) =
     [''Ready'', ''OutOfDisk'', ''MemoryPressure'', ''DiskPressure'', ''NetworkUnavailable'']"
    by (simp add: comp_def)
  from 1 2 3 show ?thesis by simp
qed





text \<open>
  C10. When the table holds no record with the namespace and name asked for,
  \<^verbatim>\<open>GetPodStatus\<close> returns, next to the error of \<^verbatim>\<open>GetPod\<close>, a pointer that is not nil: the
  address of a new status all of whose fields are zero.
\<close>

theorem GetPodStatus_NotFound_zero:
  assumes "records_of w (namespace, name) = []"
  shows "GetPodStatus w namespace name =
           (Some (New_PodStatus zero_PodStatus), Some (NotFound name namespace)) \<and>
         fst (GetPodStatus w namespace name) \<noteq> None \<and>
         read_PodStatus (heap w) (New_PodStatus zero_PodStatus) =
           \<lparr>PodIP = [], Phase = [], Conditions = [], ContainerStatuses = []\<rparr>"
  using assms by (simp add: GetPodStatus_def GetPod_eq zero_PodStatus_def)

theorem GetPodStatus_NotFound_zero_witness:
  "records_of world0 (''default'', ''web'') = [] \<and>
   GetPodStatus world0 ''default'' ''web'' =
     (Some (New_PodStatus \<lparr>PodIP = [], Phase = [], Conditions = [], ContainerStatuses = []\<rparr>),
      Some (NotFound ''web'' ''default''))"
  using GetPodStatus_NotFound_zero [OF world0_absent, of "''default''" "''web''"]
  by (simp add: world0_absent zero_PodStatus_def)

end
